theory Spec2Isabelle
  imports Main
begin

section \<open>JavaScript values\<close>

text \<open>
  The helpers of async-helpers receive and return arbitrary JavaScript values. The model
  covers undefined, null, booleans, integral numbers, strings, arrays and plain objects
  (an object is its list of own properties, in insertion order). Functions, symbols,
  non-integral numbers and objects with a prototype of their own are outside the model.
\<close>

datatype val =
    VUndef
  | VNull
  | VBool bool
  | VNum int
  | VStr string
  | VArr "val list"
  | VObj "(string \<times> val) list"

text \<open>ToBoolean: what \<open>!val\<close>, \<open>val &&\<close> and \<open>this || {}\<close> test.\<close>

fun truthy :: "val \<Rightarrow> bool" where
  "truthy VUndef = False"
| "truthy VNull = False"
| "truthy (VBool b) = b"
| "truthy (VNum i) = (i \<noteq> 0)"
| "truthy (VStr s) = (s \<noteq> [])"
| "truthy (VArr xs) = True"
| "truthy (VObj fs) = True"

text \<open>Decimal digits of a number, as template literals and ToString print them.\<close>

definition digit_char :: "nat \<Rightarrow> char" where
  "digit_char d = char_of (48 + d)"

fun show_nat :: "nat \<Rightarrow> string" where
  "show_nat n = (if n < 10 then [digit_char n] else show_nat (n div 10) @ [digit_char (n mod 10)])"

declare show_nat.simps [simp del]

definition show_int :: "int \<Rightarrow> string" where
  "show_int i = (if i < 0 then CHR ''-'' # show_nat (nat (- i)) else show_nat (nat i))"

fun join_comma :: "string list \<Rightarrow> string" where
  "join_comma [] = []"
| "join_comma [s] = s"
| "join_comma (s # t # ss) = s @ CHR '','' # join_comma (t # ss)"

text \<open>
  ToString, which a property access \<open>obj[key]\<close> and \<open>String.prototype.replace\<close> apply to
  a value that is not a string. An array prints its elements joined by commas, an
  undefined or null element as the empty string.
\<close>

fun to_string :: "val \<Rightarrow> string" where
  "to_string VUndef = ''undefined''"
| "to_string VNull = ''null''"
| "to_string (VBool b) = (if b then ''true'' else ''false'')"
| "to_string (VNum i) = show_int i"
| "to_string (VStr s) = s"
| "to_string (VArr xs) = join_comma (map (\<lambda>x. if x = VUndef \<or> x = VNull then [] else to_string x) xs)"
| "to_string (VObj fs) = ''[object Object]''"

section \<open>Strings and regular expressions\<close>

fun starts_with :: "string \<Rightarrow> string \<Rightarrow> bool" where
  "starts_with [] s = True"
| "starts_with (p # ps) [] = False"
| "starts_with (p # ps) (c # cs) = (p = c \<and> starts_with ps cs)"

text \<open>Whether \<open>pat\<close> occurs somewhere in \<open>s\<close>.\<close>

fun occurs_in :: "string \<Rightarrow> string \<Rightarrow> bool" where
  "occurs_in pat [] = (pat = [])"
| "occurs_in pat (c # cs) = (starts_with pat (c # cs) \<or> occurs_in pat cs)"

text \<open>
  The source builds regular expressions from the prefix and from token ids without
  escaping them: \<open>new RegExp(`${this.prefix}@.+@\\d+@@@`, "g")\<close> and
  \<open>new RegExp(id, "g")\<close>. A string free of the characters below is a pattern that matches
  itself and nothing else; the model covers such strings only.
\<close>

definition regex_meta :: "char list" where
  "regex_meta = CHR 0x5C # ''^$.*+?()[]{}|''"

definition regex_plain :: "string \<Rightarrow> bool" where
  "regex_plain s = (\<forall>c \<in> set s. c \<notin> set regex_meta)"

definition is_digit :: "char \<Rightarrow> bool" where
  "is_digit c = (c \<in> set ''0123456789'')"

definition is_line_terminator :: "char \<Rightarrow> bool" where
  "is_line_terminator c = (c = CHR 0x0A \<or> c = CHR 0x0D)"

text \<open>\<open>@\\d+@@@\<close> matched at the head of the string.\<close>

definition id_tail :: "string \<Rightarrow> bool" where
  "id_tail s = (case s of
       [] \<Rightarrow> False
     | c # r \<Rightarrow> c = CHR ''@'' \<and> takeWhile is_digit r \<noteq> [] \<and> starts_with ''@@@'' (dropWhile is_digit r))"

text \<open>\<open>.+@\\d+@@@\<close> matched at the head of the string: one or more characters that are
  not line terminators, then the tail.\<close>

fun any_then_tail :: "string \<Rightarrow> bool" where
  "any_then_tail [] = False"
| "any_then_tail (c # cs) = (\<not> is_line_terminator c \<and> (id_tail cs \<or> any_then_tail cs))"

text \<open>\<open>re.test(s)\<close> for the regular expression of \<open>hasAsyncId\<close>, for a plain prefix.\<close>

fun re_test :: "string \<Rightarrow> string \<Rightarrow> bool" where
  "re_test p [] = False"
| "re_test p (c # cs) =
     ((starts_with (p @ ''@'') (c # cs) \<and> any_then_tail (drop (length p + 1) (c # cs)))
      \<or> re_test p cs)"

text \<open>
  GetSubstitution for a pattern without capture groups: in the replacement string
  \<open>$$\<close> stands for a dollar sign, \<open>$&\<close> for the matched text, \<open>$`\<close> for the text before
  the match and \<open>$'\<close> for the text after it; every other character stands for itself.
\<close>

fun get_substitution :: "string \<Rightarrow> string \<Rightarrow> string \<Rightarrow> string \<Rightarrow> string" where
  "get_substitution m pre post [] = []"
| "get_substitution m pre post [c] = [c]"
| "get_substitution m pre post (c # d # r) =
     (if c = CHR ''$'' \<and> d = CHR ''$'' then CHR ''$'' # get_substitution m pre post r
      else if c = CHR ''$'' \<and> d = CHR ''&'' then m @ get_substitution m pre post r
      else if c = CHR ''$'' \<and> d = CHR 0x60 then pre @ get_substitution m pre post r
      else if c = CHR ''$'' \<and> d = CHR 0x27 then post @ get_substitution m pre post r
      else c # get_substitution m pre post (d # r))"

text \<open>
  \<open>s.replace(new RegExp(pat, "g"), rep)\<close> for a plain, non-empty \<open>pat\<close>: the matches are
  found from left to right and do not overlap. \<open>pre\<close> is the part of the string already
  passed. A token id is never empty; for the empty pattern the string is returned as it
  is.
\<close>

function replace_from :: "string \<Rightarrow> string \<Rightarrow> string \<Rightarrow> string \<Rightarrow> string" where
  "replace_from pat rep pre [] = []"
| "replace_from pat rep pre (c # cs) =
     (if pat \<noteq> [] \<and> starts_with pat (c # cs)
      then get_substitution pat pre (drop (length pat) (c # cs)) rep
           @ replace_from pat rep (pre @ pat) (drop (length pat) (c # cs))
      else c # replace_from pat rep (pre @ [c]) cs)"
  by pat_completeness auto
termination
  by (relation "measure (\<lambda>(pat, rep, pre, s). length s)") auto

definition replace_all :: "string \<Rightarrow> string \<Rightarrow> string \<Rightarrow> string" where
  "replace_all s pat rep = replace_from pat rep [] s"

section \<open>Helpers, tokens and the instance\<close>

text \<open>
  A helper is user code. What the resolver sees of one call is how the call ends, so a
  helper is a function from the receiver and the arguments to an outcome. An error is
  represented by its \<open>message\<close>.

  \<open>is-async-function\<close> (an external package) decides whether a helper takes a trailing
  completion callback. A helper for which it answers yes is a \<open>WithCb\<close>: the source
  promisifies it, and its outcome says what it does with the callback it is given. Every
  other helper is a \<open>Direct\<close>, called as it is: it returns a value, throws, or returns a
  promise that is fulfilled, is rejected or never settles. \<open>Wrapped name h\<close> is the
  closure \<open>wrappedHelper\<close> that \<open>wrapHelper\<close> builds for the helper \<open>h\<close>; it is the only
  function whose property \<open>wrapped\<close> is true.
\<close>

datatype direct_outcome =
    Returns val
  | Throws string
  | Resolves val
  | Rejects string
  | NeverSettles

datatype cb_outcome =
    CbValue val
  | CbError string
  | CbThrows string
  | CbNever

datatype func =
    Direct "val \<Rightarrow> val list \<Rightarrow> direct_outcome"
  | WithCb "val \<Rightarrow> val list \<Rightarrow> cb_outcome"
  | Wrapped string func

fun isAsyncWithCb :: "func \<Rightarrow> bool" where
  "isAsyncWithCb (WithCb b) = True"
| "isAsyncWithCb (Direct b) = False"
| "isAsyncWithCb (Wrapped n h) = False"

fun wrapped :: "func \<Rightarrow> bool" where
  "wrapped (Wrapped n h) = True"
| "wrapped (Direct b) = False"
| "wrapped (WithCb b) = False"

text \<open>The record that a wrapped helper stores under its id; \<open>t_value\<close> is \<open>None\<close> as long
  as the record has no property \<open>value\<close>.\<close>

record token =
  t_id :: string
  t_name :: string
  t_args :: "val list"
  t_fn :: func
  t_ctx :: val
  t_count :: nat
  t_value :: "val option"

text \<open>
  The instance. The three dictionaries are association lists in insertion order, the
  order of \<open>Object.keys\<close>. A raw helper can be present with the value undefined
  (\<open>None\<close>): the TypeScript \<open>wrapHelper\<close> assigns before it checks. \<open>invoked\<close> is not in
  the source: it lists the ids whose implementation has been called, oldest first, so
  that theorems can count calls.
\<close>

record state =
  prefix :: string
  counter :: nat
  helperIds :: "(string \<times> token) list"
  rawHelpers :: "(string \<times> func option) list"
  wrappedHelpers :: "(string \<times> func) list"
  invoked :: "string list"

text \<open>\<open>this.prefix = this.options.prefix || "@@@ASYNCID@"\<close>\<close>

definition new_AsyncHelpers :: "string option \<Rightarrow> state" where
  "new_AsyncHelpers opt =
     \<lparr> prefix = (case opt of None \<Rightarrow> ''@@@ASYNCID@'' | Some p \<Rightarrow> if p = [] then ''@@@ASYNCID@'' else p),
       counter = 0, helperIds = [], rawHelpers = [], wrappedHelpers = [], invoked = [] \<rparr>"

text \<open>\<open>obj[key] = v\<close>: an existing property keeps its place, a new one goes last.\<close>

fun obj_set :: "string \<Rightarrow> 'a \<Rightarrow> (string \<times> 'a) list \<Rightarrow> (string \<times> 'a) list" where
  "obj_set k v [] = [(k, v)]"
| "obj_set k v ((k', v') # r) = (if k = k' then (k, v) # r else (k', v') # obj_set k v r)"

text \<open>
  The dictionaries are created as \<open>{}\<close>, so a lookup of a name that is not an own
  property finds the properties of \<open>Object.prototype\<close>: \<open>helperIds["toString"]\<close> is a
  function, not undefined.
\<close>

definition proto_props :: "string list" where
  "proto_props = [''constructor'', ''__defineGetter__'', ''__defineSetter__'', ''hasOwnProperty'',
     ''__lookupGetter__'', ''__lookupSetter__'', ''isPrototypeOf'', ''propertyIsEnumerable'',
     ''toString'', ''valueOf'', ''__proto__'', ''toLocaleString'']"

datatype 'a property = Own 'a | Inherited | Absent

definition obj_get :: "(string \<times> 'a) list \<Rightarrow> string \<Rightarrow> 'a property" where
  "obj_get d k = (case map_of d k of
       Some v \<Rightarrow> Own v
     | None \<Rightarrow> if k \<in> set proto_props then Inherited else Absent)"

section \<open>Registration and wrapping\<close>

text \<open>
  What a lookup \<open>dict[name]\<close> of a function gives: a helper, a function inherited from
  \<open>Object.prototype\<close>, or undefined. \<open>or_else\<close> is \<open>||\<close> on such lookups.
\<close>

datatype jsfn = Fn func | BuiltinFn | Undefined

definition raw_get :: "state \<Rightarrow> string \<Rightarrow> jsfn" where
  "raw_get st name = (case obj_get (rawHelpers st) name of
       Own (Some f) \<Rightarrow> Fn f
     | Own None \<Rightarrow> Undefined
     | Inherited \<Rightarrow> BuiltinFn
     | Absent \<Rightarrow> Undefined)"

definition wrapped_get :: "state \<Rightarrow> string \<Rightarrow> jsfn" where
  "wrapped_get st name = (case obj_get (wrappedHelpers st) name of
       Own w \<Rightarrow> Fn w
     | Inherited \<Rightarrow> BuiltinFn
     | Absent \<Rightarrow> Undefined)"

definition of_arg :: "func option \<Rightarrow> jsfn" where
  "of_arg h = (case h of Some f \<Rightarrow> Fn f | None \<Rightarrow> Undefined)"

definition or_else :: "jsfn \<Rightarrow> jsfn \<Rightarrow> jsfn" where
  "or_else a b = (case a of Undefined \<Rightarrow> b | _ \<Rightarrow> a)"

text \<open>
  \<open>helper(name, fn)\<close> for a string \<open>name\<close>; \<open>fn\<close> is a function or missing. The three
  variants of the source agree here.
\<close>

datatype helper_result =
    AllRaw "(string \<times> func option) list"
  | TheRaw jsfn
  | This state

definition helper :: "state \<Rightarrow> string \<Rightarrow> func option \<Rightarrow> helper_result" where
  "helper st name fn =
     (if name = [] then AllRaw (rawHelpers st)
      else case fn of
          None \<Rightarrow> TheRaw (raw_get st name)
        | Some f \<Rightarrow> This (st\<lparr>rawHelpers := obj_set name (Some f) (rawHelpers st)\<rparr>))"

text \<open>
  \<open>wrapHelper(name, helper)\<close> for a non-empty string \<open>name\<close>. It returns the wrapped
  helper, or throws a TypeError; the state is returned in both cases, since the
  TypeScript variant assigns \<open>rawHelpers[name]\<close> before it throws. A call that would
  pick up a function of \<open>Object.prototype\<close> as the helper, and the forms that take an
  object or no name, are outside the model.
\<close>

datatype wrap_result =
    Wrapper state func
  | WrapThrows state string
  | WrapUnmodelled

definition not_found :: "string \<Rightarrow> string" where
  "not_found name = ''AsyncHelpers#wrapHelper: cannot find helper \"'' @ name @ ''\" name''"

text \<open>The TypeScript variant (src/unnamed/part_002).\<close>

definition wrapHelper_ts_rest :: "state \<Rightarrow> string \<Rightarrow> func option \<Rightarrow> wrap_result" where
  "wrapHelper_ts_rest st name h =
     (case or_else (raw_get st name) (of_arg h) of
          BuiltinFn \<Rightarrow> WrapUnmodelled
        | Undefined \<Rightarrow> WrapThrows (st\<lparr>rawHelpers := obj_set name None (rawHelpers st)\<rparr>) (not_found name)
        | Fn f \<Rightarrow> Wrapper (st\<lparr>rawHelpers := obj_set name (Some f) (rawHelpers st),
                              wrappedHelpers := obj_set name (Wrapped name f) (wrappedHelpers st)\<rparr>)
                           (Wrapped name f))"

definition wrapHelper_ts :: "state \<Rightarrow> string \<Rightarrow> func option \<Rightarrow> wrap_result" where
  "wrapHelper_ts st name h =
     (if name = [] then WrapUnmodelled
      else case wrapped_get st name of
          Fn w \<Rightarrow> if wrapped w then Wrapper st w else wrapHelper_ts_rest st name h
        | _ \<Rightarrow> wrapHelper_ts_rest st name h)"

text \<open>
  The two JavaScript variants differ in the order of the lookup only:
  \<open>this.wrappedHelpers[name] || this.rawHelpers[name] || helper\<close> in src/unnamed/part_004,
  \<open>helper || this.rawHelpers[name] || this.wrappedHelpers[name]\<close> in src/unnamed/part_005.
  \<open>this.rawHelpers[name].wrapped = undefined\<close> of part_004 acts on a function whose
  \<open>wrapped\<close> is not true, and leaves it so.
\<close>

definition wrapHelper_js_rest :: "state \<Rightarrow> string \<Rightarrow> jsfn \<Rightarrow> wrap_result" where
  "wrapHelper_js_rest st name found =
     (case found of
          BuiltinFn \<Rightarrow> WrapUnmodelled
        | Undefined \<Rightarrow> WrapThrows st (not_found name)
        | Fn f \<Rightarrow>
            if wrapped f then Wrapper st f
            else (case raw_get st name of
                Undefined \<Rightarrow> Wrapper (st\<lparr>rawHelpers := obj_set name (Some f) (rawHelpers st),
                                           wrappedHelpers := obj_set name (Wrapped name f) (wrappedHelpers st)\<rparr>)
                                        (Wrapped name f)
              | _ \<Rightarrow> Wrapper (st\<lparr>wrappedHelpers := obj_set name (Wrapped name f) (wrappedHelpers st)\<rparr>)
                                (Wrapped name f)))"

definition wrapHelper_js :: "state \<Rightarrow> string \<Rightarrow> func option \<Rightarrow> wrap_result" where
  "wrapHelper_js st name h =
     (if name = [] then WrapUnmodelled
      else wrapHelper_js_rest st name
             (or_else (wrapped_get st name) (or_else (raw_get st name) (of_arg h))))"

definition wrapHelper_js5 :: "state \<Rightarrow> string \<Rightarrow> func option \<Rightarrow> wrap_result" where
  "wrapHelper_js5 st name h =
     (if name = [] then WrapUnmodelled
      else wrapHelper_js_rest st name
             (or_else (of_arg h) (or_else (raw_get st name) (wrapped_get st name))))"

text \<open>The resolver exists in two variants: TypeScript (src/unnamed/part_002) and
  JavaScript (src/unnamed/part_004).\<close>

datatype variant = TS | JS

definition wrapHelper :: "variant \<Rightarrow> state \<Rightarrow> string \<Rightarrow> func option \<Rightarrow> wrap_result" where
  "wrapHelper v = (case v of TS \<Rightarrow> wrapHelper_ts | JS \<Rightarrow> wrapHelper_js)"

text \<open>
  The body of the closure \<open>wrappedHelper(...args)\<close>, called with the receiver \<open>this\<close>:
  it counts, builds the id, stores the record and returns the id. The counter is a
  natural number here; a JavaScript number stops counting at \<open>2^53\<close>.
\<close>

definition make_id :: "string \<Rightarrow> string \<Rightarrow> nat \<Rightarrow> string" where
  "make_id p name c = p @ ''@'' @ name @ ''@'' @ show_nat c @ ''@@@''"

definition wrappedHelper :: "state \<Rightarrow> string \<Rightarrow> func \<Rightarrow> val \<Rightarrow> val list \<Rightarrow> state \<times> string" where
  "wrappedHelper st name fn this args =
     (let c = counter st + 1;
          i = make_id (prefix st) name c;
          t = \<lparr> t_id = i, t_name = name, t_args = args, t_fn = fn,
                t_ctx = (if truthy this then this else VObj []), t_count = c, t_value = None \<rparr>
      in (st\<lparr>counter := c, helperIds := obj_set i t (helperIds st)\<rparr>, i))"

section \<open>Resolution\<close>

text \<open>
  An \<open>async\<close> function returns a promise. The model runs the asynchronous steps one after
  the other: a resolution that is started runs until its promise settles, and the
  promises that the source starts together (\<open>args.map(async ...)\<close>,
  \<open>Object.keys(this.helperIds).map(async ...)\<close>) are run from left to right. A settled
  promise is a value \<open>Inr v\<close> or a failure \<open>Inl f\<close>. \<open>Rejected m\<close> carries the message of
  the error, \<open>Pending\<close> is a promise that never settles. \<open>OutOfFuel\<close> and \<open>Unmodelled\<close> are
  answers of the model, not of the program: the recursion was cut off, or the input is
  outside what the model covers.
\<close>

datatype failure = Rejected string | Pending | OutOfFuel | Unmodelled

type_synonym 'a promise = "failure + 'a"

text \<open>\<open>hasAsyncId(val)\<close>: \<open>val && typeof val === "string" && re.test(val)\<close>.\<close>

definition hasAsyncId :: "state \<Rightarrow> val \<Rightarrow> bool" where
  "hasAsyncId st x = (case x of VStr s \<Rightarrow> s \<noteq> [] \<and> re_test (prefix st) s | _ \<Rightarrow> False)"

text \<open>
  \<open>await fn.apply(ctx, args)\<close> for the normalised implementation \<open>fn\<close> of a helper:
  the promisified form of a \<open>WithCb\<close>, the helper itself otherwise. The promise of a
  promisified helper is settled by the callback, or rejected when the helper throws.
\<close>

definition apply_fn :: "state \<Rightarrow> func \<Rightarrow> val \<Rightarrow> val list \<Rightarrow> state \<times> val promise" where
  "apply_fn st f ctx args = (case f of
       Direct b \<Rightarrow> (case b ctx args of
           Returns x \<Rightarrow> (st, Inr x)
         | Throws m \<Rightarrow> (st, Inl (Rejected m))
         | Resolves x \<Rightarrow> (st, Inr x)
         | Rejects m \<Rightarrow> (st, Inl (Rejected m))
         | NeverSettles \<Rightarrow> (st, Inl Pending))
     | WithCb b \<Rightarrow> (case b ctx args of
           CbValue x \<Rightarrow> (st, Inr x)
         | CbError m \<Rightarrow> (st, Inl (Rejected m))
         | CbThrows m \<Rightarrow> (st, Inl (Rejected m))
         | CbNever \<Rightarrow> (st, Inl Pending))
     | Wrapped name h \<Rightarrow> (case wrappedHelper st name h ctx args of (st', i) \<Rightarrow> (st', Inr (VStr i))))"

text \<open>Updates of the record stored under an id.\<close>

definition update_token :: "string \<Rightarrow> (token \<Rightarrow> token) \<Rightarrow> state \<Rightarrow> state" where
  "update_token i f st =
     st\<lparr>helperIds := map (\<lambda>(k, t). if k = i then (k, f t) else (k, t)) (helperIds st)\<rparr>"

definition log_call :: "string \<Rightarrow> state \<Rightarrow> state" where
  "log_call i st = st\<lparr>invoked := invoked st @ [i]\<rparr>"

definition set_value :: "string \<Rightarrow> val \<Rightarrow> state \<Rightarrow> state" where
  "set_value i x = update_token i (\<lambda>t. t\<lparr>t_value := Some x\<rparr>)"

definition set_args :: "string \<Rightarrow> val list \<Rightarrow> state \<Rightarrow> state" where
  "set_args i xs = update_token i (\<lambda>t. t\<lparr>t_args := xs\<rparr>)"

text \<open>
  The loop over the elements of an array argument:
  \<open>res.push(this.hasAsyncId(ele) ? await this.resolveId(ele) : ele)\<close>. It stops at the
  first element whose resolution fails.
\<close>

fun resolve_array ::
  "(state \<Rightarrow> val \<Rightarrow> state \<times> val promise) \<Rightarrow> state \<Rightarrow> val list \<Rightarrow> val list \<Rightarrow> state \<times> val list promise" where
  "resolve_array rec st res [] = (st, Inr res)"
| "resolve_array rec st res (e # es) =
     (if hasAsyncId st e
      then (case rec st e of
          (st', Inr x) \<Rightarrow> resolve_array rec st' (res @ [x]) es
        | (st', Inl f) \<Rightarrow> (st', Inl f))
      else resolve_array rec st (res @ [e]) es)"

text \<open>
  The loop over \<open>Object.entries(arg.hash)\<close>:
  \<open>arg.hash[key] = this.hasAsyncId(val) ? await this.resolveId(val) : val\<close>. It writes
  into the object that the caller passed, so the entries as they are when the loop ends
  are returned also when it fails.
\<close>

fun resolve_entries ::
  "(state \<Rightarrow> val \<Rightarrow> state \<times> val promise) \<Rightarrow> state \<Rightarrow> (string \<times> val) list \<Rightarrow> (string \<times> val) list
     \<Rightarrow> state \<times> (string \<times> val) list \<times> unit promise" where
  "resolve_entries rec st done [] = (st, done, Inr ())"
| "resolve_entries rec st done ((k, x) # r) =
     (if hasAsyncId st x
      then (case rec st x of
          (st', Inr y) \<Rightarrow> resolve_entries rec st' (done @ [(k, y)]) r
        | (st', Inl f) \<Rightarrow> (st', done @ (k, x) # r, Inl f))
      else resolve_entries rec st (done @ [(k, x)]) r)"

text \<open>
  Which arguments take the \<open>hash\<close> branch. TypeScript:
  \<open>arg && typeof arg === "object" && typeof arg.hash === "object"\<close>, which null and
  arrays pass as \<open>arg.hash\<close>; JavaScript: \<open>isObject(arg) && isObject(arg.hash)\<close>.
\<close>

datatype hash_kind = HashObject "(string \<times> val) list" | HashArray "val list" | HashNull | NoHash

definition hash_of :: "variant \<Rightarrow> val \<Rightarrow> hash_kind" where
  "hash_of v arg = (case arg of
       VObj fs \<Rightarrow> (case map_of fs ''hash'' of
           Some (VObj hs) \<Rightarrow> HashObject hs
         | Some (VArr xs) \<Rightarrow> (if v = TS then HashArray xs else NoHash)
         | Some VNull \<Rightarrow> (if v = TS then HashNull else NoHash)
         | _ \<Rightarrow> NoHash)
     | _ \<Rightarrow> NoHash)"

definition index_keys :: "val list \<Rightarrow> (string \<times> val) list" where
  "index_keys xs = zip (map show_nat [0 ..< length xs]) xs"

text \<open>
  One element of \<open>args.map(async (arg) => ...)\<close>. The result is the argument as the call
  leaves it (the \<open>hash\<close> branch changes it in place) and the promise of the resolved
  argument. \<open>this.helperIds[arg]\<close> converts \<open>arg\<close> to a property key.
\<close>

definition resolve_arg ::
  "variant \<Rightarrow> (state \<Rightarrow> val \<Rightarrow> state \<times> val promise) \<Rightarrow> state \<Rightarrow> val \<Rightarrow> state \<times> val \<times> val promise" where
  "resolve_arg v rec st arg = (case obj_get (helperIds st) (to_string arg) of
       Own item \<Rightarrow> (case rec st (VStr (t_id item)) of (st', r) \<Rightarrow> (st', arg, r))
     | Inherited \<Rightarrow> (case rec st VUndef of (st', r) \<Rightarrow> (st', arg, r))
     | Absent \<Rightarrow> (case hash_of v arg of
           HashObject hs \<Rightarrow> (case resolve_entries rec st [] hs of
               (st', hs', r) \<Rightarrow>
                 (let arg' = (case arg of VObj fs \<Rightarrow> VObj (obj_set ''hash'' (VObj hs') fs) | _ \<Rightarrow> arg)
                  in (st', arg', case r of Inl f \<Rightarrow> Inl f | Inr u \<Rightarrow> Inr arg')))
         | HashArray xs \<Rightarrow> (case resolve_entries rec st [] (index_keys xs) of
               (st', hs', r) \<Rightarrow>
                 (let arg' = (case arg of VObj fs \<Rightarrow> VObj (obj_set ''hash'' (VArr (map snd hs')) fs) | _ \<Rightarrow> arg)
                  in (st', arg', case r of Inl f \<Rightarrow> Inl f | Inr u \<Rightarrow> Inr arg')))
         | HashNull \<Rightarrow> (st, arg, Inl (Rejected ''Cannot convert undefined or null to object''))
         | NoHash \<Rightarrow> (case arg of
               VArr xs \<Rightarrow> (case resolve_array rec st [] xs of
                   (st', Inr ys) \<Rightarrow> (st', arg, Inr (VArr ys))
                 | (st', Inl f) \<Rightarrow> (st', arg, Inl f))
             | _ \<Rightarrow> (st, arg, Inr arg))))"

text \<open>
  \<open>Promise.all\<close> over promises that the model has run one after the other: rejected
  when one of them is (the leftmost one gives the error), pending when none is rejected
  and one never settles, else the list of the values. An answer of the model itself goes
  before the others.
\<close>

fun all_values :: "'a promise list \<Rightarrow> 'a list option" where
  "all_values [] = Some []"
| "all_values (Inr x # rs) = (case all_values rs of Some xs \<Rightarrow> Some (x # xs) | None \<Rightarrow> None)"
| "all_values (Inl f # rs) = None"

fun is_rejected :: "'a promise \<Rightarrow> bool" where
  "is_rejected (Inl (Rejected m)) = True"
| "is_rejected r = False"

definition promise_all :: "'a promise list \<Rightarrow> 'a list promise" where
  "promise_all rs =
     (if Inl Unmodelled \<in> set rs then Inl Unmodelled
      else if Inl OutOfFuel \<in> set rs then Inl OutOfFuel
      else case find is_rejected rs of
          Some (Inl f) \<Rightarrow> Inl f
        | _ \<Rightarrow> (case all_values rs of Some xs \<Rightarrow> Inr xs | None \<Rightarrow> Inl Pending))"

text \<open>\<open>args.map(async (arg) => ...)\<close>: every argument is started; the arguments as the
  calls leave them and the promises are collected.\<close>

fun resolve_args ::
  "variant \<Rightarrow> (state \<Rightarrow> val \<Rightarrow> state \<times> val promise) \<Rightarrow> state \<Rightarrow> val list
     \<Rightarrow> state \<times> val list \<times> val promise list" where
  "resolve_args v rec st [] = (st, [], [])"
| "resolve_args v rec st (a # as) =
     (case resolve_arg v rec st a of
        (st1, a', r) \<Rightarrow> (case resolve_args v rec st1 as of
           (st2, as', rs) \<Rightarrow> (st2, a' # as', r # rs)))"

definition cannot_resolve :: "string \<Rightarrow> string" where
  "cannot_resolve k = ''AsyncHelpers#resolveId: cannot resolve helper with \"'' @ k @ ''\" id''"

definition helper_failed :: "string \<Rightarrow> string \<Rightarrow> string \<Rightarrow> string" where
  "helper_failed name i m =
     ''AsyncHelpers#resolveId: helper with name \"'' @ name @ ''\" and id \"'' @ i @ ''\" failed'' @ '': '' @ m"

text \<open>The early return on a stored value: TypeScript
  \<open>"value" in this.helperIds[id] && typeof value === "string"\<close>, JavaScript
  \<open>'value' in this.helperIds[id]\<close>.\<close>

definition cached :: "variant \<Rightarrow> token \<Rightarrow> val option" where
  "cached v t = (case t_value t of
       None \<Rightarrow> None
     | Some (VStr s) \<Rightarrow> Some (VStr s)
     | Some x \<Rightarrow> (if v = JS then Some x else None))"

text \<open>
  The body of \<open>resolveId(key)\<close>. \<open>rec\<close> is the recursive call of \<open>resolveId\<close>, \<open>recIds\<close> the
  call of \<open>resolveIds\<close>. A key that finds a property of \<open>Object.prototype\<close> gets past the
  first check and fails at \<open>"value" in this.helperIds[id]\<close>, where \<open>id\<close> is undefined.
  The messages of the errors that the engine raises are those of V8.
\<close>

definition resolveId_step ::
  "variant \<Rightarrow> (state \<Rightarrow> val \<Rightarrow> state \<times> val promise) \<Rightarrow> (state \<Rightarrow> val \<Rightarrow> state \<times> val promise)
     \<Rightarrow> state \<Rightarrow> val \<Rightarrow> state \<times> val promise" where
  "resolveId_step v rec recIds st key = (case obj_get (helperIds st) (to_string key) of
       Absent \<Rightarrow> (st, Inl (Rejected (cannot_resolve (to_string key))))
     | Inherited \<Rightarrow> (st, Inl (Rejected ''Cannot use 'in' operator to search for 'value' in undefined''))
     | Own t \<Rightarrow> (case cached v t of
           Some x \<Rightarrow> (st, Inr x)
         | None \<Rightarrow> (case resolve_args v rec st (t_args t) of
             (st1, args', rs) \<Rightarrow>
               (let st2 = set_args (t_id t) args' st1 in
                case promise_all rs of
                  Inl (Rejected m) \<Rightarrow> (st2, Inl (Rejected (helper_failed (t_name t) (t_id t) m)))
                | Inl f \<Rightarrow> (st2, Inl f)
                | Inr argz \<Rightarrow>
                    (case apply_fn (log_call (t_id t) st2) (t_fn t) (t_ctx t) argz of
                       (st3, Inl (Rejected m)) \<Rightarrow> (st3, Inl (Rejected (helper_failed (t_name t) (t_id t) m)))
                     | (st3, Inl f) \<Rightarrow> (st3, Inl f)
                     | (st3, Inr x) \<Rightarrow>
                         (let st4 = set_value (t_id t) x st3 in
                          if v = TS \<and> \<not> truthy x then (st4, Inr (VStr []))
                          else if hasAsyncId st4 x then recIds st4 x
                          else (st4, Inr x)))))))"

text \<open>
  The \<open>reduce\<close> of \<open>resolveIds\<close>:
  \<open>if (acc === id) return value; return acc.replace(new RegExp(id, "g"), value)\<close>.
  When \<open>acc\<close> is not a string, \<open>acc.replace\<close> is not a function and the call throws.
\<close>

fun reduce_ids :: "val \<Rightarrow> (string \<times> val) list \<Rightarrow> val promise" where
  "reduce_ids acc [] = Inr acc"
| "reduce_ids acc ((i, x) # r) =
     (if acc = VStr i then reduce_ids x r
      else case acc of
          VStr s \<Rightarrow> (if regex_plain i then reduce_ids (VStr (replace_all s i (to_string x))) r
                     else Inl Unmodelled)
        | VUndef \<Rightarrow> Inl (Rejected ''Cannot read properties of undefined (reading 'replace')'')
        | VNull \<Rightarrow> Inl (Rejected ''Cannot read properties of null (reading 'replace')'')
        | _ \<Rightarrow> Inl (Rejected ''acc.replace is not a function''))"

text \<open>\<open>Object.keys(this.helperIds).map(async (id) => ...)\<close>: every stored id is resolved,
  whatever the string holds.\<close>

fun resolve_keys ::
  "(state \<Rightarrow> val \<Rightarrow> state \<times> val promise) \<Rightarrow> state \<Rightarrow> string list \<Rightarrow> state \<times> val promise list" where
  "resolve_keys rec st [] = (st, [])"
| "resolve_keys rec st (k # ks) =
     (case rec st (VStr k) of
        (st1, r) \<Rightarrow> (case resolve_keys rec st1 ks of (st2, rs) \<Rightarrow> (st2, r # rs)))"

definition resolveIds_step ::
  "(state \<Rightarrow> val \<Rightarrow> state \<times> val promise) \<Rightarrow> state \<Rightarrow> val \<Rightarrow> state \<times> val promise" where
  "resolveIds_step rec st str =
     (let ks = map fst (helperIds st) in
      case resolve_keys rec st ks of
        (st1, rs) \<Rightarrow> (case promise_all rs of
           Inl f \<Rightarrow> (st1, Inl f)
         | Inr xs \<Rightarrow> (st1, reduce_ids str (zip ks xs))))"

text \<open>
  \<open>resolveId\<close> and \<open>resolveIds\<close> call each other, and nothing in the source bounds the
  recursion, so the model gives it fuel: each call of either function uses one unit. The
  regular expression of \<open>hasAsyncId\<close> is modelled for a plain prefix only.
\<close>

datatype request = ById val | AllIn val

primrec resolve :: "variant \<Rightarrow> nat \<Rightarrow> state \<Rightarrow> request \<Rightarrow> state \<times> val promise" where
  "resolve v 0 st q = (st, Inl OutOfFuel)"
| "resolve v (Suc n) st q =
     (if \<not> regex_plain (prefix st) then (st, Inl Unmodelled)
      else case q of
          ById key \<Rightarrow> resolveId_step v (\<lambda>s k. resolve v n s (ById k)) (\<lambda>s x. resolve v n s (AllIn x)) st key
        | AllIn str \<Rightarrow> resolveIds_step (\<lambda>s k. resolve v n s (ById k)) st str)"

definition resolveId :: "variant \<Rightarrow> nat \<Rightarrow> state \<Rightarrow> val \<Rightarrow> state \<times> val promise" where
  "resolveId v n st key = resolve v n st (ById key)"

definition resolveIds :: "variant \<Rightarrow> nat \<Rightarrow> state \<Rightarrow> val \<Rightarrow> state \<times> val promise" where
  "resolveIds v n st str = resolve v n st (AllIn str)"

section \<open>Concrete helpers and instances\<close>

text \<open>A synchronous helper that returns \<open>x\<close> whatever it is given.\<close>

definition returning :: "val \<Rightarrow> func" where
  "returning x = Direct (\<lambda>ctx args. Returns x)"

text \<open>In an instance that the operations build, a name with a wrapped helper has a raw
  helper.\<close>

definition registry_ok :: "state \<Rightarrow> bool" where
  "registry_ok st = (\<forall>name. raw_get st name = Undefined \<longrightarrow> wrapped_get st name = Undefined)"



text \<open>A synchronous helper that returns the array of the arguments it was given.\<close>

definition echo_args :: func where
  "echo_args = Direct (\<lambda>ctx args. Returns (VArr args))"

text \<open>Helpers that fail: by throwing, by returning a rejected promise, by calling the
  completion callback with an error.\<close>

definition throwing :: "string \<Rightarrow> func" where
  "throwing m = Direct (\<lambda>ctx args. Throws m)"

definition rejecting :: "string \<Rightarrow> func" where
  "rejecting m = Direct (\<lambda>ctx args. Rejects m)"

definition calling_back_error :: "string \<Rightarrow> func" where
  "calling_back_error m = WithCb (\<lambda>ctx args. CbError m)"

text \<open>The instance after the call \<open>w(args)\<close> of a wrapped helper without a receiver.\<close>

definition call :: "state \<Rightarrow> string \<Rightarrow> func \<Rightarrow> val list \<Rightarrow> state" where
  "call st name h args = fst (wrappedHelper st name h VUndef args)"

text \<open>A new instance after \<open>list()\<close>, a helper that returns an array, and then
  \<open>upper()\<close>.\<close>

definition two_tokens :: state where
  "two_tokens = call (call (new_AsyncHelpers None) ''list'' (returning (VArr [VStr ''a'', VStr ''b''])) [])
      ''upper'' (returning (VStr ''DOOWB'')) []"

text \<open>A new instance after \<open>id1 = upperAsync("qux")\<close> and \<open>addOne([id1])\<close>, and after
  \<open>id1 = upperAsync("qux")\<close> and \<open>addOne([id1, "foo"])\<close>; the helper \<open>addOne\<close> is
  \<open>echo_args\<close> here, to show what it receives.\<close>

definition one_element_array :: state where
  "one_element_array =
     call (call (new_AsyncHelpers None) ''upperAsync'' (returning (VStr ''QUX'')) [VStr ''qux''])
       ''addOne'' echo_args [VArr [VStr ''@@@ASYNCID@@upperAsync@1@@@'']]"

definition two_element_array :: state where
  "two_element_array =
     call (call (new_AsyncHelpers None) ''upperAsync'' (returning (VStr ''QUX'')) [VStr ''qux''])
       ''addOne'' echo_args [VArr [VStr ''@@@ASYNCID@@upperAsync@1@@@'', VStr ''foo'']]"

text \<open>A new instance after \<open>nothing()\<close>, the call of a wrapped helper that returns
  undefined, and the record that the call stores.\<close>

definition nothing_state :: state where
  "nothing_state = call (new_AsyncHelpers None) ''nothing'' (returning VUndef) []"

definition nothing_token :: token where
  "nothing_token = \<lparr> t_id = ''@@@ASYNCID@@nothing@1@@@'', t_name = ''nothing'', t_args = [],
     t_fn = returning VUndef, t_ctx = VObj [], t_count = 1, t_value = None \<rparr>"

text \<open>
  The three ways in which an implementation fails with an error of message \<open>m\<close>: it
  throws, it returns a promise that is rejected, or it calls its completion callback with
  the error.
\<close>

definition fails_with :: "func \<Rightarrow> val \<Rightarrow> val list \<Rightarrow> string \<Rightarrow> bool" where
  "fails_with f ctx args m = (case f of
       Direct b \<Rightarrow> b ctx args = Throws m \<or> b ctx args = Rejects m
     | WithCb b \<Rightarrow> b ctx args = CbError m \<or> b ctx args = CbThrows m
     | Wrapped name h \<Rightarrow> False)"

text \<open>A new instance after \<open>upper("doowb")\<close>, the call of a wrapped helper that throws
  an error, and the record that the call stores.\<close>

definition failing_state :: state where
  "failing_state = call (new_AsyncHelpers None) ''upper'' (throwing ''UPPER Error'') [VStr ''doowb'']"


text \<open>
  The substitution as the specification words it: every occurrence of the token in the
  string is replaced by the value, from left to right, and the rest of the string is
  left as it is. This definition follows the specification, not the source; the source
  is \<open>replace_all\<close>.
\<close>

function substitute :: "string \<Rightarrow> string \<Rightarrow> string \<Rightarrow> string" where
  "substitute tok x [] = []"
| "substitute tok x (c # cs) =
     (if tok \<noteq> [] \<and> starts_with tok (c # cs)
      then x @ substitute tok x (drop (length tok) (c # cs))
      else c # substitute tok x cs)"
  by pat_completeness auto
termination
  by (relation "measure (\<lambda>(tok, x, s). length s)") auto

text \<open>A new instance after \<open>x()\<close>, which resolves to \<open>"X"\<close>, and \<open>upper("doowb")\<close>,
  which throws; and one after \<open>x()\<close> and \<open>y()\<close>, which resolve to \<open>"X"\<close> and \<open>"Y"\<close>.\<close>

definition good_and_failing :: state where
  "good_and_failing = call (call (new_AsyncHelpers None) ''x'' (returning (VStr ''X'')) [])
      ''upper'' (throwing ''UPPER Error'') [VStr ''doowb'']"

definition x_and_y :: state where
  "x_and_y = call (call (new_AsyncHelpers None) ''x'' (returning (VStr ''X'')) [])
      ''y'' (returning (VStr ''Y'')) []"

text \<open>
  An argument that the resolution of arguments passes on as it is: it is not the key of
  a stored record or of a property of \<open>Object.prototype\<close>, it does not take the \<open>hash\<close>
  branch, and if it is an array, no element of it holds a token.
\<close>

definition inert :: "variant \<Rightarrow> state \<Rightarrow> val \<Rightarrow> bool" where
  "inert v st a = (obj_get (helperIds st) (to_string a) = Absent \<and> hash_of v a = NoHash
     \<and> (case a of VArr xs \<Rightarrow> \<forall>e \<in> set xs. \<not> hasAsyncId st e | _ \<Rightarrow> True))"

text \<open>A new instance after \<open>upper("doowb")\<close>, the call of a wrapped helper that returns
  \<open>"DOOWB"\<close>; the record that the call stores; and the instance after the resolution of
  that record.\<close>

definition doowb_state :: state where
  "doowb_state = call (new_AsyncHelpers None) ''upper'' (returning (VStr ''DOOWB'')) [VStr ''doowb'']"

definition doowb_token :: token where
  "doowb_token = \<lparr> t_id = ''@@@ASYNCID@@upper@1@@@'', t_name = ''upper'', t_args = [VStr ''doowb''],
     t_fn = returning (VStr ''DOOWB''), t_ctx = VObj [], t_count = 1, t_value = None \<rparr>"

definition doowb_resolved :: state where
  "doowb_resolved = set_value ''@@@ASYNCID@@upper@1@@@'' (VStr ''DOOWB'')
     (log_call ''@@@ASYNCID@@upper@1@@@'' (set_args ''@@@ASYNCID@@upper@1@@@'' [VStr ''doowb''] doowb_state))"

text \<open>A new instance after \<open>price()\<close>, the call of a wrapped helper that returns the
  string of two dollar signs.\<close>

definition dollar_state :: state where
  "dollar_state = call (new_AsyncHelpers None) ''price'' (returning (VStr ''$$'')) []"

text \<open>
  The invariant of the store: every record is stored under its own id, and every id was
  made from the prefix and from a count that the counter has passed.
\<close>

definition ids_ok :: "state \<Rightarrow> bool" where
  "ids_ok st = (\<forall>(k, t) \<in> set (helperIds st).
      t_id t = k \<and> (\<exists>name c. k = make_id (prefix st) name c \<and> c \<le> counter st))"

text \<open>What the operations keep of a record, and of an instance: the records stay, with
  their id, name, implementation and receiver, a stored value stays stored, and the
  counter does not go down.\<close>

definition keeps :: "token \<Rightarrow> token \<Rightarrow> bool" where
  "keeps t t' = (t_id t' = t_id t \<and> t_name t' = t_name t \<and> t_fn t' = t_fn t \<and> t_ctx t' = t_ctx t
     \<and> t_count t' = t_count t \<and> (t_value t \<noteq> None \<longrightarrow> t_value t' \<noteq> None))"

definition extends :: "state \<Rightarrow> state \<Rightarrow> bool" where
  "extends st st' = (prefix st' = prefix st \<and> counter st \<le> counter st'
     \<and> (\<forall>k t. map_of (helperIds st) k = Some t \<longrightarrow> (\<exists>t'. map_of (helperIds st') k = Some t' \<and> keeps t t')))"

definition grows :: "state \<Rightarrow> state \<Rightarrow> bool" where
  "grows st st' = (ids_ok st \<longrightarrow> ids_ok st' \<and> extends st st')"




text \<open>A new instance after \<open>upper("constructor")\<close>, the call of a wrapped helper
  with the name of a property of \<open>Object.prototype\<close> as its argument.\<close>

definition constructor_state :: state where
  "constructor_state = call (new_AsyncHelpers None) ''upper'' (returning (VStr ''X'')) [VStr ''constructor'']"

section \<open>Dictionaries\<close>

lemma map_of_obj_set: "map_of (obj_set k v d) k' = (if k' = k then Some v else map_of d k')"
  by (induction d) auto

lemma obj_get_obj_set_same: "obj_get (obj_set k v d) k = Own v"
  by (simp add: obj_get_def map_of_obj_set)

lemma obj_get_obj_set_other: "k' \<noteq> k \<Longrightarrow> obj_get (obj_set k v d) k' = obj_get d k'"
  by (simp add: obj_get_def map_of_obj_set)

lemma wrapped_get_set [simp]:
  "wrapped_get (st\<lparr>rawHelpers := r, wrappedHelpers := obj_set name w (wrappedHelpers st)\<rparr>) name = Fn w"
  "wrapped_get (st\<lparr>wrappedHelpers := obj_set name w (wrappedHelpers st)\<rparr>) name = Fn w"
  by (simp_all add: wrapped_get_def obj_get_obj_set_same)

lemma raw_get_set [simp]:
  "raw_get (st\<lparr>rawHelpers := obj_set name (Some f) (rawHelpers st), wrappedHelpers := x\<rparr>) name = Fn f"
  by (simp add: raw_get_def obj_get_obj_set_same)

lemma raw_get_set_only [simp]:
  "raw_get (st\<lparr>rawHelpers := obj_set name (Some f) (rawHelpers st)\<rparr>) name = Fn f"
  by (simp add: raw_get_def obj_get_obj_set_same)

lemma raw_get_wrapped_upd [simp]: "raw_get (st\<lparr>wrappedHelpers := x\<rparr>) name = raw_get st name"
  by (simp add: raw_get_def)


section \<open>Wrapping\<close>














section \<open>Resolution: unfolding\<close>

lemma resolveId_0 [simp]: "resolveId v 0 st key = (st, Inl OutOfFuel)"
  by (simp add: resolveId_def)

lemma resolveIds_0 [simp]: "resolveIds v 0 st str = (st, Inl OutOfFuel)"
  by (simp add: resolveIds_def)

lemma resolve_ById_eq: "(\<lambda>s k. resolve v n s (ById k)) = resolveId v n"
  by (rule ext, rule ext) (simp add: resolveId_def)

lemma resolve_AllIn_eq: "(\<lambda>s x. resolve v n s (AllIn x)) = resolveIds v n"
  by (rule ext, rule ext) (simp add: resolveIds_def)

lemma resolveId_Suc:
  "resolveId v (Suc n) st key =
     (if \<not> regex_plain (prefix st) then (st, Inl Unmodelled)
      else resolveId_step v (resolveId v n) (resolveIds v n) st key)"
  by (simp add: resolveId_def resolve_ById_eq resolve_AllIn_eq)

lemma resolveIds_Suc:
  "resolveIds v (Suc n) st str =
     (if \<not> regex_plain (prefix st) then (st, Inl Unmodelled)
      else resolveIds_step (resolveId v n) st str)"
  by (simp add: resolveIds_def resolve_ById_eq)

text \<open>
  Claim C7 fails on the code, in both variants. The instance holds two tokens, the first
  of a helper that returns an array. \<open>resolveId\<close> of the first id gives the array, but
  \<open>resolveIds\<close> of a string that is exactly that id is rejected: after
  \<open>if (acc === id) return value\<close> the \<open>reduce\<close> goes on to the second id and calls
  \<open>replace\<close> on the array.
\<close>

theorem resolveIds_exact_token_fails:
  "map fst (helperIds two_tokens) = [''@@@ASYNCID@@list@1@@@'', ''@@@ASYNCID@@upper@2@@@'']
   \<and> snd (resolveId TS 3 two_tokens (VStr ''@@@ASYNCID@@list@1@@@'')) = Inr (VArr [VStr ''a'', VStr ''b''])
   \<and> snd (resolveId JS 3 two_tokens (VStr ''@@@ASYNCID@@list@1@@@'')) = Inr (VArr [VStr ''a'', VStr ''b''])
   \<and> snd (resolveIds TS 3 two_tokens (VStr ''@@@ASYNCID@@list@1@@@''))
        = Inl (Rejected ''acc.replace is not a function'')
   \<and> snd (resolveIds JS 3 two_tokens (VStr ''@@@ASYNCID@@list@1@@@''))
        = Inl (Rejected ''acc.replace is not a function'')"
  by code_simp

text \<open>
  Claim C2 fails on the code, in both variants, for an array argument with one element.
  \<open>this.helperIds[arg]\<close> converts the array \<open>[id]\<close> to the property key \<open>id\<close>, so the
  argument is taken for the token itself: the helper receives the resolved value
  \<open>"QUX"\<close>, not the array \<open>["QUX"]\<close>. With two elements the array arrives as claimed.
\<close>

theorem resolveId_one_element_array:
  "snd (resolveId TS 3 one_element_array (VStr ''@@@ASYNCID@@addOne@2@@@'')) = Inr (VArr [VStr ''QUX''])
   \<and> snd (resolveId JS 3 one_element_array (VStr ''@@@ASYNCID@@addOne@2@@@'')) = Inr (VArr [VStr ''QUX''])
   \<and> snd (resolveId TS 3 two_element_array (VStr ''@@@ASYNCID@@addOne@2@@@''))
        = Inr (VArr [VArr [VStr ''QUX'', VStr ''foo'']])
   \<and> snd (resolveId JS 3 two_element_array (VStr ''@@@ASYNCID@@addOne@2@@@''))
        = Inr (VArr [VArr [VStr ''QUX'', VStr ''foo'']])"
  by code_simp

lemma falsy_no_id: "\<not> truthy x \<Longrightarrow> \<not> hasAsyncId st x"
  by (cases x) (auto simp: hasAsyncId_def)

text \<open>What \<open>resolveId\<close> does with a stored record that has no usable stored value, once
  the arguments are resolved and the implementation has been called.\<close>

lemma resolveId_invoke:
  assumes "regex_plain (prefix st)"
    and "obj_get (helperIds st) (to_string key) = Own t"
    and "cached v t = None"
    and "resolve_args v (resolveId v n) st (t_args t) = (st1, args', rs)"
    and "promise_all rs = Inr argz"
    and "apply_fn (log_call (t_id t) (set_args (t_id t) args' st1)) (t_fn t) (t_ctx t) argz = (st3, r)"
  shows "resolveId v (Suc n) st key = (case r of
       Inl (Rejected m) \<Rightarrow> (st3, Inl (Rejected (helper_failed (t_name t) (t_id t) m)))
     | Inl f \<Rightarrow> (st3, Inl f)
     | Inr x \<Rightarrow> (if v = TS \<and> \<not> truthy x then (set_value (t_id t) x st3, Inr (VStr []))
                 else if hasAsyncId (set_value (t_id t) x st3) x then resolveIds v n (set_value (t_id t) x st3) x
                 else (set_value (t_id t) x st3, Inr x)))"
  using assms by (simp add: resolveId_Suc resolveId_step_def Let_def split: sum.splits failure.splits)

lemma show_nat_small:
  "show_nat (Suc 0) = ''1''" "show_nat 1 = ''1''" "show_nat 2 = ''2''" "show_nat 3 = ''3''"
  by code_simp+

lemma make_id_1: "make_id p name (Suc 0) = p @ ''@'' @ name @ ''@1@@@''"
  by (simp add: make_id_def show_nat_small)

lemma nothing_state_eq:
  "nothing_state = (new_AsyncHelpers None)\<lparr>counter := 1,
      helperIds := [(''@@@ASYNCID@@nothing@1@@@'', nothing_token)]\<rparr>"
  by (simp add: nothing_state_def call_def wrappedHelper_def Let_def make_id_1 new_AsyncHelpers_def
      nothing_token_def)

text \<open>
  Claim C9, as the code has it. When the implementation of a stored record completes with
  a falsy result \<open>x\<close> (undefined, null, false, 0 or the empty string), \<open>resolveId\<close> stores
  \<open>x\<close> on the record and returns: in the TypeScript variant the empty string, in the
  JavaScript variant \<open>x\<close> itself.
\<close>

theorem resolveId_falsy_result:
  assumes "regex_plain (prefix st)"
    and "obj_get (helperIds st) (to_string key) = Own t"
    and "cached v t = None"
    and "resolve_args v (resolveId v n) st (t_args t) = (st1, args', rs)"
    and "promise_all rs = Inr argz"
    and "apply_fn (log_call (t_id t) (set_args (t_id t) args' st1)) (t_fn t) (t_ctx t) argz = (st3, Inr x)"
    and "\<not> truthy x"
  shows "resolveId v (Suc n) st key
           = (set_value (t_id t) x st3, Inr (if v = TS then VStr [] else x))"
  using resolveId_invoke [OF assms(1-6)] falsy_no_id [OF assms(7)] assms(7) by simp

theorem resolveId_falsy_result_witness:
  "regex_plain (prefix nothing_state)
   \<and> obj_get (helperIds nothing_state) (to_string (VStr ''@@@ASYNCID@@nothing@1@@@'')) = Own nothing_token
   \<and> cached TS nothing_token = None
   \<and> resolve_args TS (resolveId TS 0) nothing_state (t_args nothing_token) = (nothing_state, [], [])
   \<and> promise_all ([] :: val promise list) = Inr []
   \<and> apply_fn (log_call (t_id nothing_token) (set_args (t_id nothing_token) [] nothing_state))
        (t_fn nothing_token) (t_ctx nothing_token) []
      = (log_call (t_id nothing_token) (set_args (t_id nothing_token) [] nothing_state), Inr VUndef)
   \<and> \<not> truthy VUndef
   \<and> snd (resolveId TS (Suc 0) nothing_state (VStr ''@@@ASYNCID@@nothing@1@@@'')) = Inr (VStr [])"
proof -
  have 1: "regex_plain (prefix nothing_state)"
    by (simp add: nothing_state_eq new_AsyncHelpers_def regex_plain_def regex_meta_def)
  have 2: "obj_get (helperIds nothing_state) (to_string (VStr ''@@@ASYNCID@@nothing@1@@@'')) = Own nothing_token"
    by (simp add: nothing_state_eq obj_get_def)
  have 3: "cached TS nothing_token = None"
    by (simp add: cached_def nothing_token_def)
  have 4: "resolve_args TS (resolveId TS 0) nothing_state (t_args nothing_token) = (nothing_state, [], [])"
    by (simp add: nothing_token_def)
  have 5: "promise_all ([] :: val promise list) = Inr []"
    by (simp add: promise_all_def)
  have 6: "apply_fn (log_call (t_id nothing_token) (set_args (t_id nothing_token) [] nothing_state))
        (t_fn nothing_token) (t_ctx nothing_token) []
      = (log_call (t_id nothing_token) (set_args (t_id nothing_token) [] nothing_state), Inr VUndef)"
    by (simp add: apply_fn_def nothing_token_def returning_def)
  have 7: "\<not> truthy VUndef" by simp
  from resolveId_falsy_result [OF 1 2 3 4 5 6 7] 1 2 3 4 5 6 7 show ?thesis by simp
qed

text \<open>
  Claim C9 as it is stated fails in the JavaScript variant (src/unnamed/part_004), which
  has no \<open>if (!val) return ""\<close>: the undefined result of the helper is what \<open>resolveId\<close>
  returns.
\<close>

theorem resolveId_falsy_result_counterexample:
  "snd (resolveId JS 2 nothing_state (VStr ''@@@ASYNCID@@nothing@1@@@'')) = Inr VUndef
   \<and> snd (resolveId JS 2 nothing_state (VStr ''@@@ASYNCID@@nothing@1@@@'')) \<noteq> Inr (VStr [])"
  by code_simp

section \<open>Failures\<close>














section \<open>Substitution\<close>

lemma occurs_in_empty [simp]: "occurs_in [] s"
  by (cases s) auto

lemma starts_with_self [simp]: "starts_with k k"
  by (induction k) auto

lemma occurs_in_self [simp]: "occurs_in k k"
  by (cases k) auto

lemma replace_from_absent: "\<not> occurs_in pat s \<Longrightarrow> replace_from pat rep pre s = s"
  by (induction s arbitrary: pre) auto

lemma replace_all_absent: "\<not> occurs_in pat s \<Longrightarrow> replace_all s pat rep = s"
  by (simp add: replace_all_def replace_from_absent)

lemma reduce_ids_absent:
  assumes "\<forall>k \<in> set ks. \<not> occurs_in k s \<and> regex_plain k"
  shows "reduce_ids (VStr s) (zip ks xs) = Inr (VStr s)"
  using assms
proof (induction ks arbitrary: xs)
  case Nil
  then show ?case by simp
next
  case (Cons k ks)
  show ?case
  proof (cases xs)
    case Nil
    then show ?thesis by simp
  next
    case (Cons x xs')
    from Cons.prems have "s \<noteq> k" by auto
    with Cons.prems Cons.IH [of xs'] Cons show ?thesis
      by (simp add: replace_all_absent)
  qed
qed

text \<open>
  Claim C6, as the code has it. \<open>resolveIds\<close> resolves every stored token, whatever the
  string holds. When all these resolutions succeed and no stored id occurs in the string
  (the ids being plain as regular expressions), \<open>resolveIds\<close> returns the string as it
  is; the records of the instance have been resolved on the way.
\<close>

theorem resolveIds_without_tokens:
  assumes "regex_plain (prefix st)"
    and "resolve_keys (resolveId v n) st (map fst (helperIds st)) = (st1, rs)"
    and "promise_all rs = Inr xs"
    and "\<forall>k \<in> set (map fst (helperIds st)). \<not> occurs_in k s \<and> regex_plain k"
  shows "resolveIds v (Suc n) st (VStr s) = (st1, Inr (VStr s))"
  using assms(1-3) reduce_ids_absent [OF assms(4), of xs]
  by (simp add: resolveIds_Suc resolveIds_step_def Let_def)

text \<open>
  Claim C6 as it is stated fails in both variants: the string \<open>"hello"\<close> holds no token,
  but the instance stores the token of a helper that throws, \<open>resolveIds\<close> resolves it
  all the same and is rejected.
\<close>

theorem resolveIds_without_tokens_counterexample:
  "\<not> hasAsyncId failing_state (VStr ''hello'')
   \<and> snd (resolveIds TS 2 failing_state (VStr ''hello''))
       = Inl (Rejected (helper_failed ''upper'' ''@@@ASYNCID@@upper@1@@@'' ''UPPER Error''))
   \<and> snd (resolveIds JS 2 failing_state (VStr ''hello''))
       = Inl (Rejected (helper_failed ''upper'' ''@@@ASYNCID@@upper@1@@@'' ''UPPER Error''))"
  by code_simp

section \<open>Arguments without tokens\<close>

lemma resolve_array_no_ids:
  "\<forall>e \<in> set xs. \<not> hasAsyncId st e \<Longrightarrow> resolve_array rec st res xs = (st, Inr (res @ xs))"
  by (induction xs arbitrary: res) auto

lemma resolve_arg_inert: "inert v st a \<Longrightarrow> resolve_arg v rec st a = (st, a, Inr a)"
  by (cases a) (auto simp: inert_def resolve_arg_def resolve_array_no_ids)

lemma resolve_args_inert:
  "\<forall>a \<in> set as. inert v st a \<Longrightarrow> resolve_args v rec st as = (st, as, map Inr as)"
  by (induction as) (auto simp: resolve_arg_inert)

lemma all_values_Inr: "all_values (map Inr xs) = Some xs"
  by (induction xs) auto

lemma find_is_rejected_Inr: "find is_rejected (map Inr xs) = None"
  by (induction xs) auto

lemma promise_all_Inr: "promise_all (map Inr xs) = Inr xs"
  by (auto simp: promise_all_def all_values_Inr find_is_rejected_Inr)

lemma update_token_prefix [simp]:
  "prefix (update_token i f st) = prefix st"
  "prefix (set_value i x st) = prefix st"
  "prefix (set_args i xs st) = prefix st"
  "prefix (log_call i st) = prefix st"
  by (simp_all add: update_token_def set_value_def set_args_def log_call_def)

lemma hasAsyncId_prefix: "prefix st' = prefix st \<Longrightarrow> hasAsyncId st' x = hasAsyncId st x"
  by (cases x) (simp_all add: hasAsyncId_def)

text \<open>The resolution of a record whose arguments hold no token and whose implementation
  returns a value that holds none.\<close>

lemma resolveId_plain_call:
  assumes "regex_plain (prefix st)"
    and "obj_get (helperIds st) (to_string key) = Own t"
    and "cached v t = None"
    and "\<forall>a \<in> set (t_args t). inert v st a"
    and "apply_fn (log_call (t_id t) (set_args (t_id t) (t_args t) st)) (t_fn t) (t_ctx t) (t_args t) = (st3, Inr x)"
    and "prefix st3 = prefix st"
    and "\<not> hasAsyncId st x"
    and "v = TS \<longrightarrow> truthy x"
  shows "resolveId v (Suc n) st key = (set_value (t_id t) x st3, Inr x)"
proof -
  have a: "resolve_args v (resolveId v n) st (t_args t) = (st, t_args t, map Inr (t_args t))"
    using assms(4) by (rule resolve_args_inert)
  have h: "\<not> hasAsyncId (set_value (t_id t) x st3) x"
    using assms(6,7) hasAsyncId_prefix [of "set_value (t_id t) x st3" st x] by simp
  show ?thesis
    using resolveId_invoke [OF assms(1-3) a promise_all_Inr assms(5)] h assms(8) by auto
qed

lemma doowb_state_eq:
  "doowb_state = (new_AsyncHelpers None)\<lparr>counter := 1,
      helperIds := [(''@@@ASYNCID@@upper@1@@@'', doowb_token)]\<rparr>"
  by (simp add: doowb_state_def call_def wrappedHelper_def Let_def make_id_1 new_AsyncHelpers_def
      doowb_token_def)

lemma re_test_examples:
  "\<not> re_test ''@@@ASYNCID@'' ''DOOWB''" "\<not> re_test ''@@@ASYNCID@'' ''hello''"
  "\<not> re_test ''@@@ASYNCID@'' ''doowb''"
  by code_simp+

lemma default_prefix_plain: "regex_plain ''@@@ASYNCID@''"
  by (simp add: regex_plain_def regex_meta_def)

lemma doowb_state_facts:
  "regex_plain (prefix doowb_state)"
  "prefix doowb_state = ''@@@ASYNCID@''"
  "obj_get (helperIds doowb_state) ''@@@ASYNCID@@upper@1@@@'' = Own doowb_token"
  "cached v doowb_token = None"
  "map fst (helperIds doowb_state) = [''@@@ASYNCID@@upper@1@@@'']"
  "inert v doowb_state (VStr ''doowb'')"
  by (simp_all add: doowb_state_eq new_AsyncHelpers_def default_prefix_plain obj_get_def
      cached_def doowb_token_def inert_def hash_of_def proto_props_def)

lemma doowb_resolution:
  "resolveId v (Suc n) doowb_state (VStr ''@@@ASYNCID@@upper@1@@@'') = (doowb_resolved, Inr (VStr ''DOOWB''))"
proof -
  have "resolveId v (Suc n) doowb_state (VStr ''@@@ASYNCID@@upper@1@@@'')
      = (set_value (t_id doowb_token) (VStr ''DOOWB'')
           (log_call (t_id doowb_token) (set_args (t_id doowb_token) (t_args doowb_token) doowb_state)),
         Inr (VStr ''DOOWB''))"
    by (rule resolveId_plain_call)
       (simp_all add: doowb_state_facts default_prefix_plain, simp_all add: doowb_token_def apply_fn_def
          returning_def hasAsyncId_def doowb_state_facts re_test_examples)
  then show ?thesis by (simp add: doowb_resolved_def doowb_token_def)
qed

theorem resolveIds_without_tokens_witness:
  "regex_plain (prefix doowb_state)
   \<and> resolve_keys (resolveId TS 1) doowb_state (map fst (helperIds doowb_state))
        = (doowb_resolved, [Inr (VStr ''DOOWB'')])
   \<and> promise_all [Inr (VStr ''DOOWB'') :: val promise] = Inr [VStr ''DOOWB'']
   \<and> map fst (helperIds doowb_state) = [''@@@ASYNCID@@upper@1@@@'']
   \<and> \<not> occurs_in ''@@@ASYNCID@@upper@1@@@'' ''hello'' \<and> regex_plain ''@@@ASYNCID@@upper@1@@@''
   \<and> resolveIds TS 2 doowb_state (VStr ''hello'') = (doowb_resolved, Inr (VStr ''hello''))"
proof -
  have k: "resolve_keys (resolveId TS 1) doowb_state (map fst (helperIds doowb_state))
        = (doowb_resolved, [Inr (VStr ''DOOWB'')])"
    using doowb_resolution [of TS 0] by (simp add: doowb_state_facts)
  have p: "promise_all [Inr (VStr ''DOOWB'') :: val promise] = Inr [VStr ''DOOWB'']"
    using promise_all_Inr [of "[VStr ''DOOWB'']"] by simp
  have o: "\<forall>k \<in> set (map fst (helperIds doowb_state)). \<not> occurs_in k ''hello'' \<and> regex_plain k"
    by code_simp
  have o': "\<not> occurs_in ''@@@ASYNCID@@upper@1@@@'' ''hello'' \<and> regex_plain ''@@@ASYNCID@@upper@1@@@''"
    by code_simp
  from resolveIds_without_tokens [OF doowb_state_facts(1) k p o] k p o' doowb_state_facts(1,5)
  show ?thesis by (simp add: numeral_2_eq_2)
qed

section \<open>Substitution of the resolved values\<close>

lemma get_substitution_plain:
  "CHR ''$'' \<notin> set rep \<Longrightarrow> get_substitution m pre post rep = rep"
  by (induction m pre post rep rule: get_substitution.induct) auto

lemma replace_from_substitute:
  "CHR ''$'' \<notin> set rep \<Longrightarrow> replace_from pat rep pre s = substitute pat rep s"
  by (induction pat rep pre s rule: replace_from.induct) (auto simp: get_substitution_plain)

lemma replace_all_substitute:
  "CHR ''$'' \<notin> set rep \<Longrightarrow> replace_all s pat rep = substitute pat rep s"
  by (simp add: replace_all_def replace_from_substitute)

lemma substitute_self: "k \<noteq> [] \<Longrightarrow> substitute k y k = y"
  by (cases k) auto

lemma substitute_absent: "\<not> occurs_in tok s \<Longrightarrow> substitute tok x s = s"
  by (induction s) auto

lemma reduce_ids_substitute:
  assumes "\<forall>k \<in> set ks. k \<noteq> [] \<and> regex_plain k" and "\<forall>y \<in> set ys. CHR ''$'' \<notin> set y"
  shows "reduce_ids (VStr s) (zip ks (map VStr ys))
           = Inr (VStr (foldl (\<lambda>acc (k, y). substitute k y acc) s (zip ks ys)))"
  using assms
proof (induction ks arbitrary: ys s)
  case Nil
  then show ?case by simp
next
  case (Cons k ks)
  show ?case
  proof (cases ys)
    case Nil
    then show ?thesis by simp
  next
    case (Cons y ys')
    have k: "k \<noteq> []" "regex_plain k" and y: "CHR ''$'' \<notin> set y"
      using Cons.prems Cons by auto
    have ih: "reduce_ids (VStr (substitute k y s)) (zip ks (map VStr ys'))
        = Inr (VStr (foldl (\<lambda>acc (k, y). substitute k y acc) (substitute k y s) (zip ks ys')))"
      using Cons.prems Cons by (intro Cons.IH) auto
    show ?thesis
    proof (cases "s = k")
      case True
      with k ih Cons show ?thesis by (simp add: substitute_self)
    next
      case False
      with k y ih Cons show ?thesis by (simp add: replace_all_substitute)
    qed
  qed
qed

text \<open>
  Claim C3, as the code has it. \<open>resolveIds\<close> resolves every stored token, not only
  those of the string. When all these resolutions succeed, with strings free of dollar
  signs as values, the result is the string in which, for one stored token after the
  other, every occurrence of its id is replaced by its value and the rest is left as it
  is. (The ids are non-empty and plain as regular expressions.)
\<close>

theorem resolveIds_substitutes:
  assumes "regex_plain (prefix st)"
    and "promise_all (snd (resolve_keys (resolveId v n) st (map fst (helperIds st)))) = Inr (map VStr ys)"
    and "\<forall>k \<in> set (map fst (helperIds st)). k \<noteq> [] \<and> regex_plain k"
    and "\<forall>y \<in> set ys. CHR ''$'' \<notin> set y"
  shows "snd (resolveIds v (Suc n) st (VStr s))
           = Inr (VStr (foldl (\<lambda>acc (k, y). substitute k y acc) s (zip (map fst (helperIds st)) ys)))"
proof -
  obtain st1 rs where k: "resolve_keys (resolveId v n) st (map fst (helperIds st)) = (st1, rs)"
    by (cases "resolve_keys (resolveId v n) st (map fst (helperIds st))")
  with assms(2) have "promise_all rs = Inr (map VStr ys)" by simp
  with assms(1) k reduce_ids_substitute [OF assms(3,4), of s] show ?thesis
    by (simp add: resolveIds_Suc resolveIds_step_def Let_def)
qed

theorem resolveIds_substitutes_witness:
  "regex_plain (prefix x_and_y)
   \<and> promise_all (snd (resolve_keys (resolveId TS 1) x_and_y (map fst (helperIds x_and_y))))
        = Inr (map VStr [''X'', ''Y''])
   \<and> map fst (helperIds x_and_y) = [''@@@ASYNCID@@x@1@@@'', ''@@@ASYNCID@@y@2@@@'']
   \<and> regex_plain ''@@@ASYNCID@@x@1@@@'' \<and> regex_plain ''@@@ASYNCID@@y@2@@@''
   \<and> CHR ''$'' \<notin> set ''X'' \<and> CHR ''$'' \<notin> set ''Y''
   \<and> snd (resolveIds TS 2 x_and_y
        (VStr ''a @@@ASYNCID@@x@1@@@ b @@@ASYNCID@@x@1@@@ c @@@ASYNCID@@y@2@@@''))
        = Inr (VStr ''a X b X c Y'')"
proof -
  have 1: "regex_plain (prefix x_and_y)" by code_simp
  have 2: "promise_all (snd (resolve_keys (resolveId TS 1) x_and_y (map fst (helperIds x_and_y))))
        = Inr (map VStr [''X'', ''Y''])" by code_simp
  have 3: "map fst (helperIds x_and_y) = [''@@@ASYNCID@@x@1@@@'', ''@@@ASYNCID@@y@2@@@'']" by code_simp
  have 4: "regex_plain ''@@@ASYNCID@@x@1@@@'' \<and> regex_plain ''@@@ASYNCID@@y@2@@@''" by code_simp
  have 5: "\<forall>k \<in> set (map fst (helperIds x_and_y)). k \<noteq> [] \<and> regex_plain k"
    using 4 by (simp add: 3)
  have 6: "\<forall>y \<in> set [''X'', ''Y'']. CHR ''$'' \<notin> set y" by simp
  have 7: "foldl (\<lambda>acc (k, y). substitute k y acc)
             ''a @@@ASYNCID@@x@1@@@ b @@@ASYNCID@@x@1@@@ c @@@ASYNCID@@y@2@@@''
             (zip [''@@@ASYNCID@@x@1@@@'', ''@@@ASYNCID@@y@2@@@''] [''X'', ''Y'']) = ''a X b X c Y''"
    by code_simp
  from resolveIds_substitutes [OF 1 2 5 6,
      of "''a @@@ASYNCID@@x@1@@@ b @@@ASYNCID@@x@1@@@ c @@@ASYNCID@@y@2@@@''"] 1 2 3 4 7
  show ?thesis by (simp add: numeral_2_eq_2)
qed

text \<open>
  Claim C3 as it is stated fails in both variants: the only token of the string resolves
  to \<open>"X"\<close>, but the instance also stores the token of a helper that throws;
  \<open>resolveIds\<close> resolves that one too and is rejected.
\<close>

theorem resolveIds_substitutes_counterexample:
  "snd (resolveId TS 2 good_and_failing (VStr ''@@@ASYNCID@@x@1@@@'')) = Inr (VStr ''X'')
   \<and> snd (resolveId JS 2 good_and_failing (VStr ''@@@ASYNCID@@x@1@@@'')) = Inr (VStr ''X'')
   \<and> \<not> occurs_in ''@@@ASYNCID@@upper@2@@@'' ''a @@@ASYNCID@@x@1@@@ b''
   \<and> snd (resolveIds TS 3 good_and_failing (VStr ''a @@@ASYNCID@@x@1@@@ b''))
       = Inl (Rejected (helper_failed ''upper'' ''@@@ASYNCID@@upper@2@@@'' ''UPPER Error''))
   \<and> snd (resolveIds JS 3 good_and_failing (VStr ''a @@@ASYNCID@@x@1@@@ b''))
       = Inl (Rejected (helper_failed ''upper'' ''@@@ASYNCID@@upper@2@@@'' ''UPPER Error''))"
  by code_simp

text \<open>
  The values with a dollar sign, which the theorem above leaves out:
  \<open>String.prototype.replace\<close> reads \<open>$$\<close>, \<open>$&\<close>, \<open>$`\<close> and \<open>$'\<close> in the value as
  patterns, so a token that resolves to two dollar signs is replaced by one.
\<close>

lemma resolveIds_dollar_value:
  "snd (resolveId TS 2 dollar_state (VStr ''@@@ASYNCID@@price@1@@@'')) = Inr (VStr ''$$'')
   \<and> snd (resolveIds TS 3 dollar_state (VStr ''total: @@@ASYNCID@@price@1@@@'')) = Inr (VStr ''total: $'')
   \<and> snd (resolveIds JS 3 dollar_state (VStr ''total: @@@ASYNCID@@price@1@@@'')) = Inr (VStr ''total: $'')"
  by code_simp

section \<open>Token ids\<close>










section \<open>The store only grows\<close>

lemma keeps_refl [simp]: "keeps t t"
  by (simp add: keeps_def)


lemma extends_refl [simp]: "extends st st"
  by (simp add: extends_def)


lemma grows_refl [simp]: "grows st st"
  by (simp add: grows_def)




lemma update_token_fields [simp]:
  "counter (update_token i f st) = counter st"
  "rawHelpers (update_token i f st) = rawHelpers st"
  "wrappedHelpers (update_token i f st) = wrappedHelpers st"
  "invoked (update_token i f st) = invoked st"
  by (simp_all add: update_token_def)


























section \<open>Memoisation\<close>







section \<open>The call of a wrapped helper\<close>

lemma grows_helper: "helper st name fn = This st' \<Longrightarrow> grows st st'"
  by (auto simp: helper_def grows_def ids_ok_def extends_def split: if_splits option.splits)

lemma grows_registry:
  "prefix st' = prefix st \<Longrightarrow> counter st' = counter st \<Longrightarrow> helperIds st' = helperIds st \<Longrightarrow> grows st st'"
  by (simp add: grows_def ids_ok_def extends_def)

lemma wrapHelper_ts_rest_grows:
  "wrapHelper_ts_rest st name h = Wrapper st' w \<Longrightarrow> grows st st'"
  "wrapHelper_ts_rest st name h = WrapThrows st' m \<Longrightarrow> grows st st'"
  by (cases "or_else (raw_get st name) (of_arg h)"; auto simp: wrapHelper_ts_rest_def intro!: grows_registry)+

lemma wrapHelper_ts_grows:
  "wrapHelper_ts st name h = Wrapper st' w \<Longrightarrow> grows st st'"
  "wrapHelper_ts st name h = WrapThrows st' m \<Longrightarrow> grows st st'"
  by (cases "wrapped_get st name";
      auto simp: wrapHelper_ts_def split: if_splits intro: wrapHelper_ts_rest_grows)+

lemma wrapHelper_js_rest_grows:
  "wrapHelper_js_rest st name found = Wrapper st' w \<Longrightarrow> grows st st'"
  "wrapHelper_js_rest st name found = WrapThrows st' m \<Longrightarrow> grows st st'"
  by (cases found; cases "raw_get st name";
      auto simp: wrapHelper_js_rest_def split: if_splits intro!: grows_registry)+

lemma wrapHelper_grows:
  "wrapHelper v st name h = Wrapper st' w \<Longrightarrow> grows st st'"
  "wrapHelper v st name h = WrapThrows st' m \<Longrightarrow> grows st st'"
  by (cases v; auto simp: wrapHelper_def wrapHelper_js_def split: if_splits
        intro: wrapHelper_ts_grows wrapHelper_js_rest_grows)+






text \<open>
  An argument that names a property of \<open>Object.prototype\<close> is not inert:
  \<open>this.helperIds[arg]\<close> finds the inherited property, \<open>item.id\<close> is undefined, and the
  resolution of the record is rejected, in both variants.
\<close>

lemma resolveId_prototype_argument:
  "snd (resolveId TS 3 constructor_state (VStr ''@@@ASYNCID@@upper@1@@@''))
     = Inl (Rejected (helper_failed ''upper'' ''@@@ASYNCID@@upper@1@@@'' (cannot_resolve ''undefined'')))
   \<and> snd (resolveId JS 3 constructor_state (VStr ''@@@ASYNCID@@upper@1@@@''))
     = Inl (Rejected (helper_failed ''upper'' ''@@@ASYNCID@@upper@1@@@'' (cannot_resolve ''undefined'')))"
  by code_simp

section \<open>The registry invariant\<close>

lemma raw_get_obj_set:
  "raw_get (st\<lparr>rawHelpers := obj_set name x (rawHelpers st)\<rparr>) name'
     = (if name' = name then of_arg x else raw_get st name')"
  by (cases x) (simp_all add: raw_get_def of_arg_def obj_get_obj_set_same obj_get_obj_set_other)

lemma wrapped_get_obj_set:
  "wrapped_get (st\<lparr>wrappedHelpers := obj_set name w (wrappedHelpers st)\<rparr>) name'
     = (if name' = name then Fn w else wrapped_get st name')"
  by (simp add: wrapped_get_def obj_get_obj_set_same obj_get_obj_set_other)

lemma wrapped_get_raw_upd [simp]: "wrapped_get (st\<lparr>rawHelpers := x\<rparr>) name = wrapped_get st name"
  by (simp add: wrapped_get_def)

lemma registry_ok_helper:
  "registry_ok st \<Longrightarrow> helper st name fn = This st' \<Longrightarrow> registry_ok st'"
  by (auto simp: helper_def registry_ok_def raw_get_obj_set of_arg_def split: if_splits option.splits)

lemma registry_ok_wrapHelper_ts_rest:
  assumes "registry_ok st"
  shows "wrapHelper_ts_rest st name h = Wrapper st' w \<Longrightarrow> registry_ok st'"
    and "wrapHelper_ts_rest st name h = WrapThrows st' m \<Longrightarrow> registry_ok st'"
proof -
  assume "wrapHelper_ts_rest st name h = Wrapper st' w"
  then obtain f where "st' = st\<lparr>rawHelpers := obj_set name (Some f) (rawHelpers st),
        wrappedHelpers := obj_set name (Wrapped name f) (wrappedHelpers st)\<rparr>"
    by (cases "or_else (raw_get st name) (of_arg h)") (auto simp: wrapHelper_ts_rest_def)
  then have "st' = (st\<lparr>rawHelpers := obj_set name (Some f) (rawHelpers st)\<rparr>)
        \<lparr>wrappedHelpers := obj_set name (Wrapped name f)
            (wrappedHelpers (st\<lparr>rawHelpers := obj_set name (Some f) (rawHelpers st)\<rparr>))\<rparr>"
    by simp
  then show "registry_ok st'"
    using assms unfolding registry_ok_def
    by (simp only: wrapped_get_obj_set raw_get_wrapped_upd raw_get_obj_set wrapped_get_raw_upd)
       (auto simp: of_arg_def)
next
  assume "wrapHelper_ts_rest st name h = WrapThrows st' m"
  then have u: "or_else (raw_get st name) (of_arg h) = Undefined"
    and s: "st' = st\<lparr>rawHelpers := obj_set name None (rawHelpers st)\<rparr>"
    by (cases "or_else (raw_get st name) (of_arg h)"; auto simp: wrapHelper_ts_rest_def)+
  from u have "raw_get st name = Undefined" by (cases "raw_get st name") (auto simp: or_else_def)
  with assms have "wrapped_get st name = Undefined" by (simp add: registry_ok_def)
  with assms s show "registry_ok st'"
    by (auto simp: registry_ok_def raw_get_obj_set of_arg_def split: if_splits)
qed

lemma registry_ok_wrapHelper_ts:
  assumes "registry_ok st"
  shows "wrapHelper_ts st name h = Wrapper st' w \<Longrightarrow> registry_ok st'"
    and "wrapHelper_ts st name h = WrapThrows st' m \<Longrightarrow> registry_ok st'"
  using assms
  by (cases "wrapped_get st name";
      auto simp: wrapHelper_ts_def split: if_splits intro: registry_ok_wrapHelper_ts_rest)+

lemma registry_ok_wrapHelper_js_rest:
  assumes "registry_ok st"
  shows "wrapHelper_js_rest st name found = Wrapper st' w \<Longrightarrow> registry_ok st'"
    and "wrapHelper_js_rest st name found = WrapThrows st' m \<Longrightarrow> registry_ok st'"
proof -
  assume a: "wrapHelper_js_rest st name found = Wrapper st' w"
  then obtain f where f: "found = Fn f" by (cases found) (auto simp: wrapHelper_js_rest_def)
  show "registry_ok st'"
  proof (cases "wrapped f")
    case True
    with a f assms show ?thesis by (simp add: wrapHelper_js_rest_def)
  next
    case False
    show ?thesis
    proof (cases "raw_get st name = Undefined")
      case True
      with a f False have "st' = (st\<lparr>rawHelpers := obj_set name (Some f) (rawHelpers st)\<rparr>)
          \<lparr>wrappedHelpers := obj_set name (Wrapped name f)
              (wrappedHelpers (st\<lparr>rawHelpers := obj_set name (Some f) (rawHelpers st)\<rparr>))\<rparr>"
        by (auto simp: wrapHelper_js_rest_def)
      then show ?thesis
        using assms unfolding registry_ok_def
        by (simp only: wrapped_get_obj_set raw_get_wrapped_upd raw_get_obj_set wrapped_get_raw_upd)
           (auto simp: of_arg_def)
    next
      case r: False
      with a f False have "st' = st\<lparr>wrappedHelpers := obj_set name (Wrapped name f) (wrappedHelpers st)\<rparr>"
        by (cases "raw_get st name") (auto simp: wrapHelper_js_rest_def)
      then show ?thesis
        using assms r unfolding registry_ok_def
        by (simp only: wrapped_get_obj_set raw_get_wrapped_upd) auto
    qed
  qed
next
  assume "wrapHelper_js_rest st name found = WrapThrows st' m"
  then have "st' = st"
    by (cases found; cases "raw_get st name") (auto simp: wrapHelper_js_rest_def split: if_splits)
  with assms show "registry_ok st'" by simp
qed

text \<open>The invariant holds in a new instance and is kept by \<open>helper\<close>, by \<open>wrapHelper\<close> in
  its three variants, and by the call of a wrapped helper, which leaves the helpers
  alone.\<close>

lemma registry_ok_kept:
  assumes "registry_ok st"
  shows "helper st name fn = This st' \<Longrightarrow> registry_ok st'"
    and "wrapHelper v st name h = Wrapper st' w \<or> wrapHelper v st name h = WrapThrows st' m
          \<or> wrapHelper_js5 st name h = Wrapper st' w \<or> wrapHelper_js5 st name h = WrapThrows st' m
        \<Longrightarrow> registry_ok st'"
    and "registry_ok (fst (wrappedHelper st name f this args))"
proof -
  show "helper st name fn = This st' \<Longrightarrow> registry_ok st'"
    using assms by (rule registry_ok_helper)
  show "registry_ok (fst (wrappedHelper st name f this args))"
    using assms by (simp add: registry_ok_def wrappedHelper_def Let_def raw_get_def wrapped_get_def)
  assume "wrapHelper v st name h = Wrapper st' w \<or> wrapHelper v st name h = WrapThrows st' m
          \<or> wrapHelper_js5 st name h = Wrapper st' w \<or> wrapHelper_js5 st name h = WrapThrows st' m"
  then show "registry_ok st'"
    by (cases v)
       (auto simp: wrapHelper_def wrapHelper_js_def wrapHelper_js5_def split: if_splits
          dest: registry_ok_wrapHelper_ts [OF assms] registry_ok_wrapHelper_js_rest [OF assms])
qed

section \<open>The kinds of helper\<close>

lemma isAsyncWithCb_iff: "isAsyncWithCb f \<longleftrightarrow> (\<exists>b. f = WithCb b)"
  by (cases f) auto

lemma fails_with_examples:
  "fails_with (throwing m) ctx args m"
  "fails_with (rejecting m) ctx args m"
  "fails_with (calling_back_error m) ctx args m"
  "isAsyncWithCb (calling_back_error m)"
  "\<not> isAsyncWithCb (throwing m)"
  by (simp_all add: fails_with_def throwing_def rejecting_def calling_back_error_def)

end
